theory Spec2Isabelle
  imports Complex_Main
begin

section \<open>DCA trading engine of \<open>main.py\<close>\<close>

text \<open>
  A shallow embedding of the trading engine and of the endpoints that read and write the
  two module-level objects \<open>current_config\<close> and \<open>portfolio_data\<close>.

  Conventions of the model.
  \<^item> Python's \<open>float\<close> (and the \<open>int\<close> literal \<open>0\<close> of \<open>assess_risk\<close>) is the type
    \<open>real\<close>: arithmetic is exact, there is neither rounding nor \<open>inf\<close> nor \<open>nan\<close>.
    Float division by zero raises \<open>ZeroDivisionError\<close> in Python; the model returns
    \<open>Inl ZeroDivisionError\<close> there.
  \<^item> A dict literal is an association list in the order of its keys, read with
    \<open>map_of\<close>; its values are \<open>pyval\<close>s.
  \<^item> The pydantic models are records. \<open>TradingConfig\<close> declares types and defaults
    only, no range constraint, so every record value is a configuration the endpoints
    accept.
  \<^item> The module-level objects are the record \<open>app_state\<close>, passed in and returned.
    A function that raises returns the state as it is at the raise.
  \<^item> Each call of \<open>datetime.now()\<close> is an input of the model: the ISO string of the
    two timestamps, and the integer \<open>hash(str(datetime.now()))\<close> of the mocked price.
\<close>

subsection \<open>Data model\<close>

datatype pyval = PyStr string | PyFloat real | PyBool bool

type_synonym pydict = "(string \<times> pyval) list"

datatype py_error = ZeroDivisionError

record TradingConfig =
  symbol :: string
  dca_amount :: real
  dca_interval :: int
  hedge_ratio :: real
  risk_limit :: real
  take_profit :: real

record TradeExecution =
  config :: TradingConfig
  simulate :: bool

record Portfolio =
  total_value :: real
  positions :: "pydict list"
  pnl :: real
  trades :: "pydict list"

record app_state =
  current_config :: TradingConfig
  portfolio_data :: Portfolio

text \<open>The defaults of the class \<open>TradingConfig\<close>, and the two objects at import time.\<close>

definition default_config :: TradingConfig where
  "default_config =
     \<lparr>symbol = ''BTC/USD'', dca_amount = 100.0, dca_interval = 24,
      hedge_ratio = 0.3, risk_limit = 0.1, take_profit = 0.15\<rparr>"

definition initial_state :: app_state where
  "initial_state =
     \<lparr>current_config = default_config,
      portfolio_data = \<lparr>total_value = 10000.0, positions = [], pnl = 0.0, trades = []\<rparr>\<rparr>"

subsection \<open>TradingEngine\<close>

definition calculate_dca_position :: "TradingConfig \<Rightarrow> real \<Rightarrow> string \<Rightarrow> py_error + pydict" where
  "calculate_dca_position cfg current_price now =
     (if current_price = 0 then Inl ZeroDivisionError
      else
        let position_size = dca_amount cfg / current_price
        in Inr [(''type'', PyStr ''DCA_BUY''),
                (''symbol'', PyStr (symbol cfg)),
                (''size'', PyFloat position_size),
                (''price'', PyFloat current_price),
                (''timestamp'', PyStr now)])"

definition calculate_hedge :: "TradingConfig \<Rightarrow> real \<Rightarrow> string \<Rightarrow> pydict" where
  "calculate_hedge cfg position_value now =
     (let hedge_size = position_value * hedge_ratio cfg
      in [(''type'', PyStr ''HEDGE''),
          (''symbol'', PyStr (symbol cfg @ ''_HEDGE'')),
          (''size'', PyFloat hedge_size),
          (''timestamp'', PyStr now)])"

definition assess_risk :: "Portfolio \<Rightarrow> TradingConfig \<Rightarrow> pydict" where
  "assess_risk portfolio cfg =
     (let risk_percentage =
            (if total_value portfolio > 0 then \<bar>pnl portfolio\<bar> / total_value portfolio else 0)
      in [(''current_risk'', PyFloat risk_percentage),
          (''risk_limit'', PyFloat (risk_limit cfg)),
          (''within_limits'', PyBool (risk_percentage \<le> risk_limit cfg)),
          (''recommendation'',
             PyStr (if risk_percentage > risk_limit cfg then ''REDUCE_POSITION'' else ''CONTINUE''))])"

subsection \<open>Endpoints\<close>

record ConfigResponse =
  message :: string
  resp_config :: TradingConfig

record ExecuteResponse =
  execution_result :: string
  resp_trades :: "pydict list"
  resp_portfolio :: Portfolio
  risk_assessment :: pydict
  resp_current_price :: real

definition get_config :: "app_state \<Rightarrow> TradingConfig" where
  "get_config s = current_config s"

definition update_config :: "TradingConfig \<Rightarrow> app_state \<Rightarrow> ConfigResponse \<times> app_state" where
  "update_config cfg s =
     (let s' = s\<lparr>current_config := cfg\<rparr>
      in (\<lparr>message = ''Configuration updated'', resp_config = current_config s'\<rparr>, s'))"

text \<open>
  The mocked price of line 109, \<open>50000.0 + (hash(...) % 10000 - 5000)\<close>, as a function of
  the hash. Python's \<open>%\<close> with a positive modulus is the floor modulus, as \<open>mod\<close> on
  \<open>int\<close> is.
\<close>

definition mock_price :: "int \<Rightarrow> real" where
  "mock_price h = 50000.0 + real_of_int (h mod 10000 - 5000)"

text \<open>
  Lines 111 to 134 of \<open>execute_trade\<close>, for a given \<open>current_price\<close>. The division of
  \<open>calculate_dca_position\<close> is the only operation that can raise, and it comes before the
  first write to \<open>portfolio_data\<close>.
\<close>

definition execute_trade_at ::
  "TradeExecution \<Rightarrow> real \<Rightarrow> string \<Rightarrow> string \<Rightarrow> app_state
     \<Rightarrow> (py_error + ExecuteResponse) \<times> app_state" where
  "execute_trade_at execution current_price now_dca now_hedge s =
     (case calculate_dca_position (config execution) current_price now_dca of
        Inl e \<Rightarrow> (Inl e, s)
      | Inr dca_trade \<Rightarrow>
          let hedge_trade =
                calculate_hedge (config execution) (dca_amount (config execution)) now_hedge;
              p1 = (portfolio_data s)\<lparr>positions := positions (portfolio_data s) @ [dca_trade]\<rparr>;
              p2 = p1\<lparr>trades := trades p1 @ [dca_trade, hedge_trade]\<rparr>;
              price_change = (current_price - 50000) / 50000;
              p3 = p2\<lparr>pnl := total_value p2 * price_change * 0.1\<rparr>;
              risk = assess_risk p3 (config execution)
          in (Inr \<lparr>execution_result = (if simulate execution then ''SUCCESS'' else ''EXECUTED''),
                    resp_trades = [dca_trade, hedge_trade],
                    resp_portfolio = p3,
                    risk_assessment = risk,
                    resp_current_price = current_price\<rparr>,
              s\<lparr>portfolio_data := p3\<rparr>))"

definition execute_trade ::
  "TradeExecution \<Rightarrow> int \<Rightarrow> string \<Rightarrow> string \<Rightarrow> app_state
     \<Rightarrow> (py_error + ExecuteResponse) \<times> app_state" where
  "execute_trade execution h now_dca now_hedge s =
     execute_trade_at execution (mock_price h) now_dca now_hedge s"

definition get_portfolio :: "app_state \<Rightarrow> Portfolio" where
  "get_portfolio s = portfolio_data s"

definition get_risk_analysis :: "app_state \<Rightarrow> pydict" where
  "get_risk_analysis s = assess_risk (portfolio_data s) (current_config s)"

text \<open>
  A request to one of the endpoints that touch the two objects, and the state it leaves.
  The root, static and UI routes read neither object.
\<close>

datatype request =
    GetConfig
  | UpdateConfig TradingConfig
  | ExecuteTrade TradeExecution int string string
  | GetPortfolio
  | GetRiskAnalysis

fun serve :: "request \<Rightarrow> app_state \<Rightarrow> app_state" where
  "serve GetConfig s = s"
| "serve (UpdateConfig cfg) s = snd (update_config cfg s)"
| "serve (ExecuteTrade execution h now_dca now_hedge) s =
     snd (execute_trade execution h now_dca now_hedge s)"
| "serve GetPortfolio s = s"
| "serve GetRiskAnalysis s = s"

fun serve_all :: "request list \<Rightarrow> app_state \<Rightarrow> app_state" where
  "serve_all [] s = s"
| "serve_all (r # rs) s = serve_all rs (serve r s)"

section \<open>Properties\<close>

subsection \<open>Shared facts\<close>

lemma mock_price_bounds: "45000 \<le> mock_price h \<and> mock_price h < 55000"
proof -
  have "0 \<le> h mod 10000" and "h mod 10000 < 10000"
    by simp_all
  then have "- 5000 \<le> h mod 10000 - 5000" and "h mod 10000 - 5000 < 5000"
    by simp_all
  then have "- 5000 \<le> real_of_int (h mod 10000 - 5000)"
    and "real_of_int (h mod 10000 - 5000) < 5000"
    by linarith+
  then show ?thesis
    unfolding mock_price_def by simp
qed

lemma mock_price_nonzero: "mock_price h \<noteq> 0"
  using mock_price_bounds [of h] by simp

lemma execute_trade_at_commits:
  assumes "current_price \<noteq> 0"
  shows "execute_trade_at execution current_price now_dca now_hedge s =
     (let dca_trade =
            [(''type'', PyStr ''DCA_BUY''),
             (''symbol'', PyStr (symbol (config execution))),
             (''size'', PyFloat (dca_amount (config execution) / current_price)),
             (''price'', PyFloat current_price),
             (''timestamp'', PyStr now_dca)];
          hedge_trade =
            calculate_hedge (config execution) (dca_amount (config execution)) now_hedge;
          p3 = (portfolio_data s)
                 \<lparr>positions := positions (portfolio_data s) @ [dca_trade],
                  trades := trades (portfolio_data s) @ [dca_trade, hedge_trade],
                  pnl := total_value (portfolio_data s) * ((current_price - 50000) / 50000) * 0.1\<rparr>
      in (Inr \<lparr>execution_result = (if simulate execution then ''SUCCESS'' else ''EXECUTED''),
                resp_trades = [dca_trade, hedge_trade],
                resp_portfolio = p3,
                risk_assessment = assess_risk p3 (config execution),
                resp_current_price = current_price\<rparr>,
          s\<lparr>portfolio_data := p3\<rparr>))"
  using assms
  by (simp add: execute_trade_at_def calculate_dca_position_def Let_def)

lemma execute_trade_commits:
  "execute_trade execution h now_dca now_hedge s =
     (let dca_trade =
            [(''type'', PyStr ''DCA_BUY''),
             (''symbol'', PyStr (symbol (config execution))),
             (''size'', PyFloat (dca_amount (config execution) / mock_price h)),
             (''price'', PyFloat (mock_price h)),
             (''timestamp'', PyStr now_dca)];
          hedge_trade =
            calculate_hedge (config execution) (dca_amount (config execution)) now_hedge;
          p3 = (portfolio_data s)
                 \<lparr>positions := positions (portfolio_data s) @ [dca_trade],
                  trades := trades (portfolio_data s) @ [dca_trade, hedge_trade],
                  pnl := total_value (portfolio_data s) * ((mock_price h - 50000) / 50000) * 0.1\<rparr>
      in (Inr \<lparr>execution_result = (if simulate execution then ''SUCCESS'' else ''EXECUTED''),
                resp_trades = [dca_trade, hedge_trade],
                resp_portfolio = p3,
                risk_assessment = assess_risk p3 (config execution),
                resp_current_price = mock_price h\<rparr>,
          s\<lparr>portfolio_data := p3\<rparr>))"
  unfolding execute_trade_def
  by (rule execute_trade_at_commits [OF mock_price_nonzero])

text \<open>
  The sizing step checks no price: it raises exactly at the price zero, where the cycle
  of lines 111 to 134 stops before its first write.
\<close>

lemma calculate_dca_position_raises_iff:
  "calculate_dca_position cfg current_price now = Inl ZeroDivisionError
     \<longleftrightarrow> current_price = 0"
  by (simp add: calculate_dca_position_def)

lemma execute_trade_at_zero_price:
  "execute_trade_at execution 0 now_dca now_hedge s = (Inl ZeroDivisionError, s)"
  by (simp add: execute_trade_at_def calculate_dca_position_def)

lemma serve_total_value:
  "total_value (portfolio_data (serve r s)) = total_value (portfolio_data s)"
  by (cases r) (simp_all add: update_config_def execute_trade_commits Let_def)

lemma serve_all_total_value:
  "total_value (portfolio_data (serve_all rs s)) = total_value (portfolio_data s)"
  by (induction rs arbitrary: s) (simp_all add: serve_total_value)

subsection \<open>Position sizing\<close>

text \<open>
  C1. For every configuration with a positive \<open>dca_amount\<close> and every positive price,
  \<open>calculate_dca_position\<close> returns (it does not raise) a dict whose \<open>type\<close> is
  \<open>DCA_BUY\<close>, whose \<open>size\<close> is \<open>dca_amount / current_price\<close>, whose \<open>price\<close> is the
  price given and whose \<open>symbol\<close> is the configuration's.
\<close>

theorem calculate_dca_position_intent:
  assumes "0 < current_price" and "0 < dca_amount cfg"
  shows "\<exists>d. calculate_dca_position cfg current_price now = Inr d
           \<and> map_of d ''type'' = Some (PyStr ''DCA_BUY'')
           \<and> map_of d ''size'' = Some (PyFloat (dca_amount cfg / current_price))
           \<and> map_of d ''price'' = Some (PyFloat current_price)
           \<and> map_of d ''symbol'' = Some (PyStr (symbol cfg))"
  using assms by (simp add: calculate_dca_position_def)

theorem calculate_dca_position_intent_witness:
  "(0::real) < 50000 \<and> 0 < dca_amount default_config
   \<and> (\<exists>d. calculate_dca_position default_config 50000 ''2024-01-01T00:00:00'' = Inr d
           \<and> map_of d ''type'' = Some (PyStr ''DCA_BUY'')
           \<and> map_of d ''size'' = Some (PyFloat 0.002)
           \<and> map_of d ''price'' = Some (PyFloat 50000)
           \<and> map_of d ''symbol'' = Some (PyStr ''BTC/USD''))"
  using calculate_dca_position_intent [of 50000 default_config "''2024-01-01T00:00:00''"]
  by (simp add: default_config_def)

subsection \<open>Risk assessment\<close>

text \<open>
  C2. For every portfolio and configuration, \<open>assess_risk\<close> returns a dict whose
  \<open>current_risk\<close> is \<open>|pnl| / total_value\<close> when \<open>total_value > 0\<close> and \<open>0\<close> otherwise,
  whose \<open>within_limits\<close> is the truth value of \<open>current_risk \<le> risk_limit\<close>, and whose
  \<open>recommendation\<close> is \<open>REDUCE_POSITION\<close> when \<open>current_risk > risk_limit\<close> and
  \<open>CONTINUE\<close> otherwise.
\<close>

theorem assess_risk_verdict:
  "\<exists>current_risk.
     current_risk =
       (if total_value portfolio > 0 then \<bar>pnl portfolio\<bar> / total_value portfolio else 0)
     \<and> map_of (assess_risk portfolio cfg) ''current_risk'' = Some (PyFloat current_risk)
     \<and> map_of (assess_risk portfolio cfg) ''within_limits''
         = Some (PyBool (current_risk \<le> risk_limit cfg))
     \<and> map_of (assess_risk portfolio cfg) ''recommendation''
         = Some (PyStr (if current_risk > risk_limit cfg then ''REDUCE_POSITION''
                        else ''CONTINUE''))"
  by (simp add: assess_risk_def Let_def)

subsection \<open>Hedge sizing\<close>

text \<open>
  C3. For every configuration and every \<open>position_value \<ge> 0\<close>, \<open>calculate_hedge\<close> returns
  a dict whose \<open>type\<close> is \<open>HEDGE\<close>, whose \<open>size\<close> is \<open>position_value * hedge_ratio\<close> and
  whose \<open>symbol\<close> is the configuration's symbol followed by \<open>_HEDGE\<close>. Every call of
  \<open>execute_trade\<close> returns and records, as its second trade, the hedge computed from
  the \<open>dca_amount\<close> of the configuration it was given.
\<close>

theorem calculate_hedge_intent:
  assumes "0 \<le> position_value"
  shows "map_of (calculate_hedge cfg position_value now) ''type'' = Some (PyStr ''HEDGE'')
       \<and> map_of (calculate_hedge cfg position_value now) ''size''
           = Some (PyFloat (position_value * hedge_ratio cfg))
       \<and> map_of (calculate_hedge cfg position_value now) ''symbol''
           = Some (PyStr (symbol cfg @ ''_HEDGE''))
       \<and> (\<exists>r dca_trade.
             fst (execute_trade execution h now_dca now_hedge s) = Inr r
             \<and> resp_trades r =
                 [dca_trade,
                  calculate_hedge (config execution) (dca_amount (config execution)) now_hedge]
             \<and> trades (portfolio_data (snd (execute_trade execution h now_dca now_hedge s))) =
                 trades (portfolio_data s) @
                 [dca_trade,
                  calculate_hedge (config execution) (dca_amount (config execution)) now_hedge])"
  by (simp add: calculate_hedge_def execute_trade_def
        execute_trade_at_commits [OF mock_price_nonzero] Let_def)

theorem calculate_hedge_intent_witness:
  "(0::real) \<le> 100
   \<and> map_of (calculate_hedge default_config 100 ''2024-01-01T00:00:00'') ''type''
       = Some (PyStr ''HEDGE'')
   \<and> map_of (calculate_hedge default_config 100 ''2024-01-01T00:00:00'') ''size''
       = Some (PyFloat 30)
   \<and> map_of (calculate_hedge default_config 100 ''2024-01-01T00:00:00'') ''symbol''
       = Some (PyStr ''BTC/USD_HEDGE'')"
  using calculate_hedge_intent
    [of 100 default_config "''2024-01-01T00:00:00''"
        "\<lparr>config = default_config, simulate = True\<rparr>" 0 "''2024-01-01T00:00:00''" "''2024-01-01T00:00:01''" initial_state]
  by (simp add: default_config_def)

subsection \<open>Profit and loss of a cycle\<close>

text \<open>
  C4. After every call of \<open>execute_trade\<close> that returns, with \<open>current_price\<close> the price
  it observed (the one it reports, the mocked price of its hash), the \<open>pnl\<close> of the
  portfolio is \<open>total_value * ((current_price - 50000) / 50000) * 0.1\<close>. The value
  replaces the previous \<open>pnl\<close>: whatever \<open>pnl\<close> the portfolio held before the call, the
  state after the call is the same.
\<close>

theorem execute_trade_pnl:
  assumes "execute_trade execution h now_dca now_hedge s = (Inr r, s')"
  shows "resp_current_price r = mock_price h
       \<and> pnl (portfolio_data s') =
           total_value (portfolio_data s') * ((resp_current_price r - 50000) / 50000) * 0.1
       \<and> (\<forall>previous_pnl.
             snd (execute_trade execution h now_dca now_hedge
                    (s\<lparr>portfolio_data := (portfolio_data s)\<lparr>pnl := previous_pnl\<rparr>\<rparr>)) = s')"
  using assms
  by (auto simp add: execute_trade_def execute_trade_at_commits [OF mock_price_nonzero] Let_def)

theorem execute_trade_pnl_witness:
  "\<exists>r s'. execute_trade \<lparr>config = default_config, simulate = True\<rparr> 7500
              ''2024-01-01T00:00:00'' ''2024-01-01T00:00:01'' initial_state = (Inr r, s')
         \<and> resp_current_price r = 52500
         \<and> pnl (portfolio_data s') = 50"
proof -
  obtain r s' where run:
    "execute_trade \<lparr>config = default_config, simulate = True\<rparr> 7500
       ''2024-01-01T00:00:00'' ''2024-01-01T00:00:01'' initial_state = (Inr r, s')"
    by (simp add: execute_trade_def execute_trade_at_commits [OF mock_price_nonzero] Let_def)
  have price: "mock_price 7500 = 52500"
    by (simp add: mock_price_def)
  have total: "total_value (portfolio_data s') = 10000"
    using run
    by (auto simp add: execute_trade_def execute_trade_at_commits [OF mock_price_nonzero]
          Let_def initial_state_def)
  from execute_trade_pnl [OF run] price total
  have "resp_current_price r = 52500" and "pnl (portfolio_data s') = 50"
    by simp_all
  with run show ?thesis
    by blast
qed



subsection \<open>Configurations that are out of range\<close>



subsection \<open>The stored configuration\<close>

text \<open>
  C8. For every configuration \<open>cfg\<close> and every state, \<open>get_config\<close> after
  \<open>update_config cfg\<close> returns exactly \<open>cfg\<close>, which is also the configuration in the
  answer of \<open>update_config\<close>: the stored configuration is replaced as a whole, and no field
  of the previous one is kept.
\<close>

theorem get_config_after_update_config:
  "get_config (snd (update_config cfg s)) = cfg
   \<and> resp_config (fst (update_config cfg s)) = cfg"
  by (simp add: get_config_def update_config_def)

subsection \<open>The capital base is never written\<close>

text \<open>
  C9. After any sequence of requests from the state at import time, \<open>total_value\<close> is
  its seed \<open>10000\<close>. A call of \<open>execute_trade\<close> writes the portfolio in three places
  only: it appends one entry to \<open>positions\<close>, two entries to \<open>trades\<close>, and overwrites
  \<open>pnl\<close>; \<open>total_value\<close> is as before. \<open>update_config\<close> leaves the portfolio as it
  was, and \<open>get_config\<close>, \<open>get_portfolio\<close> and \<open>get_risk_analysis\<close> leave the whole
  state as it was.
\<close>

theorem total_value_never_written:
  "total_value (portfolio_data (serve_all requests initial_state)) = 10000
   \<and> total_value (portfolio_data (snd (execute_trade execution h now_dca now_hedge s)))
       = total_value (portfolio_data s)
   \<and> (\<exists>dca_trade hedge_trade new_pnl.
         portfolio_data (snd (execute_trade execution h now_dca now_hedge s))
           = (portfolio_data s)
               \<lparr>positions := positions (portfolio_data s) @ [dca_trade],
                trades := trades (portfolio_data s) @ [dca_trade, hedge_trade],
                pnl := new_pnl\<rparr>)
   \<and> portfolio_data (snd (update_config cfg s)) = portfolio_data s
   \<and> serve GetConfig s = s
   \<and> serve GetPortfolio s = s
   \<and> serve GetRiskAnalysis s = s"
proof -
  have "total_value (portfolio_data (serve_all requests initial_state)) = 10000"
    by (simp add: serve_all_total_value initial_state_def)
  moreover
  have "total_value (portfolio_data (snd (execute_trade execution h now_dca now_hedge s)))
          = total_value (portfolio_data s)"
    by (simp add: execute_trade_commits Let_def)
  moreover
  have "\<exists>dca_trade hedge_trade new_pnl.
          portfolio_data (snd (execute_trade execution h now_dca now_hedge s))
            = (portfolio_data s)
                \<lparr>positions := positions (portfolio_data s) @ [dca_trade],
                 trades := trades (portfolio_data s) @ [dca_trade, hedge_trade],
                 pnl := new_pnl\<rparr>"
  proof -
    have "portfolio_data (snd (execute_trade execution h now_dca now_hedge s))
            = (portfolio_data s)
                \<lparr>positions := positions (portfolio_data s) @
                   [projr (calculate_dca_position (config execution) (mock_price h) now_dca)],
                 trades := trades (portfolio_data s) @
                   [projr (calculate_dca_position (config execution) (mock_price h) now_dca),
                    calculate_hedge (config execution) (dca_amount (config execution))
                      now_hedge],
                 pnl := total_value (portfolio_data s) * ((mock_price h - 50000) / 50000)
                          * 0.1\<rparr>"
      by (simp add: execute_trade_commits calculate_dca_position_def mock_price_nonzero
            Let_def)
    then show ?thesis
      by blast
  qed
  moreover
  have "portfolio_data (snd (update_config cfg s)) = portfolio_data s"
    by (simp add: update_config_def)
  ultimately show ?thesis
    by simp
qed

subsection \<open>The mocked price\<close>

text \<open>
  C10. For every value of the hash, the mocked price of \<open>execute_trade\<close> is at least
  \<open>45000\<close> and less than \<open>55000\<close>, so it is positive; \<open>calculate_dca_position\<close> at that
  price does not raise \<open>ZeroDivisionError\<close>, and \<open>execute_trade\<close> returns a response
  that reports that price.
\<close>

theorem mock_price_in_range:
  "45000 \<le> mock_price h \<and> mock_price h < 55000 \<and> 0 < mock_price h
   \<and> calculate_dca_position (config execution) (mock_price h) now_dca
       \<noteq> Inl ZeroDivisionError
   \<and> (\<exists>r. fst (execute_trade execution h now_dca now_hedge s) = Inr r
          \<and> resp_current_price r = mock_price h)"
proof -
  have bounds: "45000 \<le> mock_price h" "mock_price h < 55000"
    using mock_price_bounds [of h] by simp_all
  then have positive: "0 < mock_price h"
    by simp
  then have "calculate_dca_position (config execution) (mock_price h) now_dca
               \<noteq> Inl ZeroDivisionError"
    by (simp add: calculate_dca_position_def)
  moreover
  have "\<exists>r. fst (execute_trade execution h now_dca now_hedge s) = Inr r
          \<and> resp_current_price r = mock_price h"
    by (simp add: execute_trade_commits Let_def)
  ultimately show ?thesis
    using bounds positive by simp
qed

end
